theory Spec2Isabelle
  imports Main "HOL-Library.Char_ord"
begin

section \<open>Webhook service (src/services/webhookService.js)\<close>

text \<open>
  The service keeps its subscriptions in a \<^verbatim>\<open>Map\<close> from webhook id to webhook object.
  Dates are epoch milliseconds; random identifiers and secrets are inputs of the model.
\<close>

record deliveryStats =
  total :: nat
  successful :: nat
  failed :: nat
  lastDelivery :: "int option"

record webhook =
  wh_id :: string
  wh_url :: string
  wh_events :: "string list"
  wh_description :: string
  wh_userId :: string
  wh_secret :: string
  isActive :: bool
  createdAt :: int
  lastTriggered :: "int option"
  stats :: deliveryStats

text \<open>The constructor's constants.\<close>

definition retryDelays :: "nat list" where
  "retryDelays = [1000, 5000, 15000, 60000, 300000]"

definition maxRetries :: nat where
  "maxRetries = 5"

subsection \<open>Registration\<close>





datatype wh_error = InvalidWebhookUrl | NoEventSpecified | WebhookNotFound





subsection \<open>Delivery and retries\<close>

text \<open>
  The outcome of \<^verbatim>\<open>axios.post\<close>: with \<^verbatim>\<open>validateStatus: () => true\<close> every completed
  response resolves, whatever its status; a timeout or transport error rejects.
\<close>

datatype response = Status int | TransportError

record delivery_result =
  success :: bool
  attemptHeader :: nat
  statusCode :: "int option"

text \<open>A pending \<^verbatim>\<open>setTimeout\<close>: the delay in milliseconds and the attempt number it will pass on.\<close>

datatype timer = Timer nat nat

text \<open>\<^verbatim>\<open>scheduleRetry\<close> is only ever called with \<open>attempt + 1\<close>, so \<open>attempt - 1\<close> is not negative.\<close>

definition scheduleRetry :: "nat \<Rightarrow> timer" where
  "scheduleRetry attempt =
     Timer (retryDelays ! min (attempt - 1) (length retryDelays - 1)) attempt"

definition count_failure :: "webhook \<Rightarrow> webhook" where
  "count_failure w = w \<lparr> stats := (stats w) \<lparr> failed := failed (stats w) + 1 \<rparr> \<rparr>"

text \<open>
  One call of \<^verbatim>\<open>deliverWebhook\<close>: the webhook with its counters updated, the value returned,
  and the timer set by \<^verbatim>\<open>scheduleRetry\<close>, if any.
\<close>

definition deliverWebhook ::
  "response \<Rightarrow> int \<Rightarrow> webhook \<Rightarrow> nat \<Rightarrow> webhook \<times> delivery_result \<times> timer option" where
  "deliverWebhook resp now w attempt =
     (case resp of
        Status s \<Rightarrow>
          (let w1 = w \<lparr> stats := (stats w) \<lparr> total := total (stats w) + 1,
                                              lastDelivery := Some now \<rparr> \<rparr>
           in if 200 \<le> s \<and> s < 300
              then (w1 \<lparr> stats := (stats w1) \<lparr> successful := successful (stats w1) + 1 \<rparr>,
                        lastTriggered := Some now \<rparr>,
                    \<lparr> success = True, attemptHeader = attempt + 1, statusCode = Some s \<rparr>,
                    None)
              else (count_failure w1,
                    \<lparr> success = False, attemptHeader = attempt + 1, statusCode = Some s \<rparr>,
                    if attempt < maxRetries then Some (scheduleRetry (attempt + 1)) else None))
      | TransportError \<Rightarrow>
          (count_failure (w \<lparr> stats := (stats w) \<lparr> total := total (stats w) + 1 \<rparr> \<rparr>),
           \<lparr> success = False, attemptHeader = attempt + 1, statusCode = None \<rparr>,
           if attempt < maxRetries then Some (scheduleRetry (attempt + 1)) else None))"

text \<open>
  The chain of deliveries for one (event, subscription): the first call and every timer
  callback until no timer is left. \<open>endpoint k\<close> is the endpoint's answer to the call with
  attempt number \<open>k\<close>, \<open>clock k\<close> the time of that call. The result is the final webhook,
  the value returned by each call in order, and the delay of each timer in order.
\<close>

function deliveries ::
  "(nat \<Rightarrow> response) \<Rightarrow> (nat \<Rightarrow> int) \<Rightarrow> webhook \<Rightarrow> nat
     \<Rightarrow> webhook \<times> delivery_result list \<times> nat list" where
  "deliveries endpoint clock w attempt =
     (case deliverWebhook (endpoint attempt) (clock attempt) w attempt of
        (w', r, None) \<Rightarrow> (w', [r], [])
      | (w', r, Some (Timer delay attempt')) \<Rightarrow>
          (case deliveries endpoint clock w' attempt' of
             (w'', rs, ds) \<Rightarrow> (w'', r # rs, delay # ds)))"
  by pat_completeness auto

lemma deliverWebhook_timer:
  "deliverWebhook resp now w attempt = (w', r, Some (Timer d a')) \<Longrightarrow>
     attempt < maxRetries \<and> a' = attempt + 1
       \<and> d = retryDelays ! min attempt (length retryDelays - 1)"
  by (auto simp: deliverWebhook_def scheduleRetry_def Let_def
           split: response.splits if_splits)

termination deliveries
  apply (relation "measure (\<lambda>(endpoint, clock, w, attempt). maxRetries + 1 - attempt)")
   apply simp
  apply (drule sym [of _ "deliverWebhook _ _ _ _"])
  apply (auto dest!: deliverWebhook_timer)
  done

declare deliveries.simps [simp del]

text \<open>The condition under which a delivery counts as successful.\<close>

definition is_2xx :: "response \<Rightarrow> bool" where
  "is_2xx r = (case r of Status s \<Rightarrow> 200 \<le> s \<and> s < 300 | TransportError \<Rightarrow> False)"

definition run_webhook :: "(nat \<Rightarrow> response) \<Rightarrow> (nat \<Rightarrow> int) \<Rightarrow> webhook \<Rightarrow> webhook" where
  "run_webhook endpoint clock w = fst (deliveries endpoint clock w 0)"

definition run_results :: "(nat \<Rightarrow> response) \<Rightarrow> (nat \<Rightarrow> int) \<Rightarrow> webhook \<Rightarrow> delivery_result list" where
  "run_results endpoint clock w = fst (snd (deliveries endpoint clock w 0))"

definition run_delays :: "(nat \<Rightarrow> response) \<Rightarrow> (nat \<Rightarrow> int) \<Rightarrow> webhook \<Rightarrow> nat list" where
  "run_delays endpoint clock w = snd (snd (deliveries endpoint clock w 0))"

text \<open>Concrete inputs: a fresh subscription, an endpoint that always answers 500, and
  the endpoint of scenario S5 (500 twice, then 200).\<close>

definition example_webhook :: webhook where
  "example_webhook =
     \<lparr> wh_id = ''wh_1'', wh_url = ''https://example.com/hook'',
       wh_events = [''processing.completed''], wh_description = [],
       wh_userId = ''u1'', wh_secret = ''s'', isActive = True, createdAt = 0,
       lastTriggered = None,
       stats = \<lparr> total = 0, successful = 0, failed = 0, lastDelivery = None \<rparr> \<rparr>"

definition endpoint_500 :: "nat \<Rightarrow> response" where
  "endpoint_500 k = Status 500"

definition endpoint_s5 :: "nat \<Rightarrow> response" where
  "endpoint_s5 k = (if k < 2 then Status 500 else Status 200)"

definition clock_zero :: "nat \<Rightarrow> int" where
  "clock_zero k = 0"

lemmas deliveries_unfold =
  deliveries.simps [of _ _ _ 0] deliveries.simps [of _ _ _ "Suc 0"]
  deliveries.simps [of _ _ _ "Suc (Suc 0)"] deliveries.simps [of _ _ _ "Suc (Suc (Suc 0))"]
  deliveries.simps [of _ _ _ "Suc (Suc (Suc (Suc 0)))"]
  deliveries.simps [of _ _ _ "Suc (Suc (Suc (Suc (Suc 0))))"]

lemmas deliveries_eval =
  deliveries_unfold deliverWebhook_def scheduleRetry_def maxRetries_def retryDelays_def
  count_failure_def Let_def

lemma deliverWebhook_success:
  "deliverWebhook resp now w attempt = (w', r, t) \<Longrightarrow>
     success r = is_2xx resp \<and> attemptHeader r = attempt + 1 \<and>
     (t = None \<longleftrightarrow> (is_2xx resp \<or> \<not> attempt < maxRetries)) \<and>
     failed (stats w') = failed (stats w) + (if is_2xx resp then 0 else 1) \<and>
     total (stats w') = total (stats w) + 1 \<and>
     successful (stats w') = successful (stats w) + (if is_2xx resp then 1 else 0)"
  by (auto simp: deliverWebhook_def is_2xx_def count_failure_def Let_def
           split: response.splits if_splits)

lemma deliveries_general:
  "deliveries endpoint clock w attempt = (w', rs, ds) \<Longrightarrow>
     length rs = length ds + 1 \<and>
     (attempt \<le> maxRetries \<longrightarrow> length rs \<le> maxRetries + 1 - attempt) \<and>
     ds = map (\<lambda>k. retryDelays ! min k (length retryDelays - 1)) [attempt ..< attempt + length ds] \<and>
     map attemptHeader rs = map Suc [attempt ..< attempt + length rs] \<and>
     map success rs = map (\<lambda>k. is_2xx (endpoint k)) [attempt ..< attempt + length rs] \<and>
     failed (stats w') = failed (stats w) + length (filter (\<lambda>r. \<not> success r) rs) \<and>
     (length rs < maxRetries + 1 - attempt \<longrightarrow> success (last rs))"
proof (induction endpoint clock w attempt arbitrary: w' rs ds rule: deliveries.induct)
  case (1 endpoint clock w attempt)
  obtain w1 r t where step: "deliverWebhook (endpoint attempt) (clock attempt) w attempt = (w1, r, t)"
    by (cases "deliverWebhook (endpoint attempt) (clock attempt) w attempt") auto
  note s = deliverWebhook_success [OF step]
  show ?case
  proof (cases t)
    case None
    with step "1.prems" have e: "w' = w1" "rs = [r]" "ds = []"
      by (simp_all add: deliveries.simps [of endpoint clock w attempt])
    have "length rs < maxRetries + 1 - attempt \<longrightarrow> success (last rs)"
      using s None e by auto
    with s e show ?thesis by auto
  next
    case (Some tm)
    then obtain d a' where tm: "tm = Timer d a'" by (cases tm) auto
    from step Some tm
    have step': "deliverWebhook (endpoint attempt) (clock attempt) w attempt
                   = (w1, r, Some (Timer d a'))"
      by simp
    note tmr = deliverWebhook_timer [OF step']
    obtain w2 rs2 ds2 where rec: "deliveries endpoint clock w1 a' = (w2, rs2, ds2)"
      by (cases "deliveries endpoint clock w1 a'") auto
    from step' rec "1.prems" have eqs: "w' = w2" "rs = r # rs2" "ds = d # ds2"
      by (simp_all add: deliveries.simps [of endpoint clock w attempt])
    have IH: "length rs2 = length ds2 + 1 \<and>
     (a' \<le> maxRetries \<longrightarrow> length rs2 \<le> maxRetries + 1 - a') \<and>
     ds2 = map (\<lambda>k. retryDelays ! min k (length retryDelays - 1)) [a' ..< a' + length ds2] \<and>
     map attemptHeader rs2 = map Suc [a' ..< a' + length rs2] \<and>
     map success rs2 = map (\<lambda>k. is_2xx (endpoint k)) [a' ..< a' + length rs2] \<and>
     failed (stats w2) = failed (stats w1) + length (filter (\<lambda>r. \<not> success r) rs2) \<and>
     (length rs2 < maxRetries + 1 - a' \<longrightarrow> success (last rs2))"
      by (rule "1.IH" [OF step' [symmetric] refl refl refl rec])
    from Some s have nf: "\<not> is_2xx (endpoint attempt)" by auto
    have a': "a' = Suc attempt" and lt: "attempt < maxRetries"
      and d: "d = retryDelays ! min attempt (length retryDelays - 1)"
      using tmr by simp_all
    have u1: "[attempt ..< attempt + length ds] = attempt # [a' ..< a' + length ds2]"
      using eqs a' by (simp add: upt_conv_Cons del: upt_Suc)
    have u2: "[attempt ..< attempt + length rs] = attempt # [a' ..< a' + length rs2]"
      using eqs a' by (simp add: upt_conv_Cons del: upt_Suc)
    have i1: "length rs2 = length ds2 + 1" using IH by blast
    have i2: "length rs2 \<le> maxRetries + 1 - a'" using IH a' lt by simp
    have i3: "ds2 = map (\<lambda>k. retryDelays ! min k (length retryDelays - 1)) [a' ..< a' + length ds2]"
      using IH by blast
    have i4: "map attemptHeader rs2 = map Suc [a' ..< a' + length rs2]" using IH by blast
    have i5: "map success rs2 = map (\<lambda>k. is_2xx (endpoint k)) [a' ..< a' + length rs2]"
      using IH by blast
    have i6: "failed (stats w2) = failed (stats w1) + length (filter (\<lambda>r. \<not> success r) rs2)"
      using IH by blast
    have i7: "length rs2 < maxRetries + 1 - a' \<longrightarrow> success (last rs2)"
      using IH by blast
    have c1: "length rs = length ds + 1" using i1 eqs by simp
    have c2: "length rs \<le> maxRetries + 1 - attempt" using i2 eqs a' lt by simp
    have c3: "ds = map (\<lambda>k. retryDelays ! min k (length retryDelays - 1)) [attempt ..< attempt + length ds]"
      unfolding u1 using i3 eqs(3) d by simp
    have sr: "success r = is_2xx (endpoint attempt)" "attemptHeader r = Suc attempt"
      "failed (stats w1) = Suc (failed (stats w))"
      using s nf by simp_all
    have c4: "map attemptHeader rs = map Suc [attempt ..< attempt + length rs]"
      unfolding u2 using i4 eqs(2) sr(2) by simp
    have c5: "map success rs = map (\<lambda>k. is_2xx (endpoint k)) [attempt ..< attempt + length rs]"
      unfolding u2 using i5 eqs(2) sr(1) by simp
    have c6: "failed (stats w') = failed (stats w) + length (filter (\<lambda>r. \<not> success r) rs)"
      using i6 eqs(1,2) sr(1,3) nf by simp
    have ne: "rs2 \<noteq> []" using i1 by auto
    have c7: "length rs < maxRetries + 1 - attempt \<longrightarrow> success (last rs)"
      using i7 eqs(2) a' ne by auto
    show ?thesis using c1 c2 c3 c4 c5 c6 c7 by blast
  qed
qed

lemma map_pred_upt: "map (\<lambda>k. f (k - 1)) [1 ..< Suc n] = map f [0 ..< n]"
proof -
  have "[1 ..< Suc n] = map Suc [0 ..< n]"
    by (simp add: map_Suc_upt del: upt_Suc)
  then show ?thesis
    by (simp add: comp_def del: upt_Suc)
qed

section \<open>Rate limiter (the rate limiting middleware, class RateLimiter)\<close>

text \<open>
  The limiter keeps, per key, a Redis sorted set of admissions. A sorted set maps each
  member to one score; \<^verbatim>\<open>recordRequest\<close> adds the member \<^verbatim>\<open>now.toString()\<close> with score
  \<^verbatim>\<open>now\<close>. A member is represented by the integer whose decimal string it is. Times
  are epoch milliseconds, windows are seconds.
\<close>

type_synonym zset = "(int \<times> int) list"

datatype redis_op = GET | ZRANGEBYSCORE | ZADD | ZREMRANGEBYSCORE | EXPIRE

text \<open>What is thrown: an error of the Redis client, a \<^verbatim>\<open>TypeError\<close>, or an
  \<^verbatim>\<open>Error\<close> with its message.\<close>

datatype exn = RedisError | TypeError | Error string

text \<open>
  The world of one limiter: the Redis contents, the fate of the coming Redis calls
  (\<open>True\<close>: the call throws; an exhausted list means no further failure), the record of
  the calls made and whether each threw, the number of \<^verbatim>\<open>Date.now()\<close> readings taken so
  far, and what was written to the console.
\<close>

record world =
  strings :: "string \<rightharpoonup> string"
  zsets :: "string \<rightharpoonup> zset"
  ttl :: "string \<rightharpoonup> int"
  faults :: "bool list"
  calls :: "(redis_op \<times> bool) list"
  tick :: nat
  console :: "string list"

type_synonym 'a io = "world \<Rightarrow> (exn + 'a) \<times> world"

text \<open>Sequencing of steps that may throw: a throw skips the steps that follow.\<close>

definition bind ::
  "('s \<Rightarrow> (exn + 'a) \<times> 's) \<Rightarrow> ('a \<Rightarrow> 's \<Rightarrow> (exn + 'b) \<times> 's) \<Rightarrow> 's \<Rightarrow> (exn + 'b) \<times> 's" where
  "bind m f w = (case m w of (Inl e, w') \<Rightarrow> (Inl e, w') | (Inr x, w') \<Rightarrow> f x w')"

definition return :: "'a \<Rightarrow> 's \<Rightarrow> (exn + 'a) \<times> 's" where
  "return x w = (Inr x, w)"

text \<open>\<^verbatim>\<open>Date.now()\<close>: the next reading of the clock.\<close>

definition date_now :: "(nat \<Rightarrow> int) \<Rightarrow> int io" where
  "date_now clock w = (Inr (clock (tick w)), w \<lparr> tick := tick w + 1 \<rparr>)"

text \<open>A Redis call either throws, leaving the data as it is, or runs its command.\<close>

definition redis_call :: "redis_op \<Rightarrow> (world \<Rightarrow> 'a \<times> world) \<Rightarrow> 'a io" where
  "redis_call opn cmd w =
     (case faults w of
        [] \<Rightarrow> (case cmd (w \<lparr> calls := calls w @ [(opn, False)] \<rparr>) of (x, w') \<Rightarrow> (Inr x, w'))
      | f # fs \<Rightarrow>
          if f then (Inl RedisError, w \<lparr> faults := fs, calls := calls w @ [(opn, True)] \<rparr>)
          else (case cmd (w \<lparr> faults := fs, calls := calls w @ [(opn, False)] \<rparr>) of
                  (x, w') \<Rightarrow> (Inr x, w')))"

definition the_zset :: "world \<Rightarrow> string \<Rightarrow> zset" where
  "the_zset w key = (case zsets w key of None \<Rightarrow> [] | Some z \<Rightarrow> z)"

definition redis_get :: "string \<Rightarrow> string option io" where
  "redis_get key = redis_call GET (\<lambda>w. (strings w key, w))"

definition zrangebyscore :: "string \<Rightarrow> int \<Rightarrow> int list io" where
  "zrangebyscore key lo =
     redis_call ZRANGEBYSCORE (\<lambda>w. (map fst (filter (\<lambda>(m, sc). lo \<le> sc) (the_zset w key)), w))"

definition zadd :: "string \<Rightarrow> int \<Rightarrow> int \<Rightarrow> unit io" where
  "zadd key score member =
     redis_call ZADD (\<lambda>w. ((),
       w \<lparr> zsets := (zsets w)(key \<mapsto>
              filter (\<lambda>(m, sc). m \<noteq> member) (the_zset w key) @ [(member, score)]) \<rparr>))"

definition zremrangebyscore :: "string \<Rightarrow> int \<Rightarrow> unit io" where
  "zremrangebyscore key hi =
     redis_call ZREMRANGEBYSCORE (\<lambda>w. ((),
       (case filter (\<lambda>(m, sc). \<not> sc \<le> hi) (the_zset w key) of
          [] \<Rightarrow> w \<lparr> zsets := (zsets w)(key := None) \<rparr>
        | z \<Rightarrow> w \<lparr> zsets := (zsets w)(key \<mapsto> z) \<rparr>)))"

definition expire :: "string \<Rightarrow> int \<Rightarrow> unit io" where
  "expire key seconds =
     redis_call EXPIRE (\<lambda>w. ((),
       (case zsets w key of None \<Rightarrow> w | Some z \<Rightarrow> w \<lparr> ttl := (ttl w)(key \<mapsto> seconds) \<rparr>)))"

record tierConfig =
  requests :: int
  window :: int
  files :: int
  fileWindow :: int

definition tiers :: "string \<Rightarrow> tierConfig option" where
  "tiers t =
     (if t = ''free'' then
        Some \<lparr> requests = 100, window = 15 * 60, files = 10, fileWindow = 24 * 60 * 60 \<rparr>
      else if t = ''pro'' then
        Some \<lparr> requests = 1000, window = 15 * 60, files = 100, fileWindow = 24 * 60 * 60 \<rparr>
      else if t = ''enterprise'' then
        Some \<lparr> requests = 10000, window = 15 * 60, files = 1000, fileWindow = 24 * 60 * 60 \<rparr>
      else None)"

text \<open>
  \<^verbatim>\<open>getUserTier\<close> has a \<^verbatim>\<open>try\<close> of its own: a failing lookup is logged and answered
  with the free tier. A missing or empty user id, and a missing or empty stored tier,
  also give the free tier.
\<close>

definition getUserTier :: "string option \<Rightarrow> string io" where
  "getUserTier userId w =
     (case userId of
        None \<Rightarrow> (Inr ''free'', w)
      | Some u \<Rightarrow>
          if u = [] then (Inr ''free'', w)
          else
            (case redis_get (''user:'' @ u @ '':tier'') w of
               (Inl e, w') \<Rightarrow>
                 (Inr ''free'', w' \<lparr> console := console w' @ [''Error getting user tier:''] \<rparr>)
             | (Inr None, w') \<Rightarrow> (Inr ''free'', w')
             | (Inr (Some t), w') \<Rightarrow> (Inr (if t = [] then ''free'' else t), w')))"

record rateLimitInfo =
  count :: int
  reset :: int
  info_window :: int

definition getRateLimitInfo :: "(nat \<Rightarrow> int) \<Rightarrow> string \<Rightarrow> int \<Rightarrow> rateLimitInfo io" where
  "getRateLimitInfo clock key win =
     bind (date_now clock) (\<lambda>now.
     bind (zrangebyscore key (now - win * 1000)) (\<lambda>reqs.
     return \<lparr> count = int (length reqs), reset = now + win * 1000, info_window = win \<rparr>))"

definition isAllowed :: "(nat \<Rightarrow> int) \<Rightarrow> string \<Rightarrow> int \<Rightarrow> int \<Rightarrow> bool io" where
  "isAllowed clock key limit win =
     bind (getRateLimitInfo clock key win) (\<lambda>info. return (count info < limit))"

definition recordRequest :: "(nat \<Rightarrow> int) \<Rightarrow> string \<Rightarrow> int \<Rightarrow> unit io" where
  "recordRequest clock key win =
     bind (date_now clock) (\<lambda>now.
     bind (zadd key now now) (\<lambda>_.
     bind (zremrangebyscore key (now - win * 1000)) (\<lambda>_.
     expire key win)))"

definition getRemaining :: "(nat \<Rightarrow> int) \<Rightarrow> string \<Rightarrow> int \<Rightarrow> int \<Rightarrow> int io" where
  "getRemaining clock key limit win =
     bind (getRateLimitInfo clock key win) (\<lambda>info. return (max 0 (limit - count info)))"

definition generateKey :: "string \<Rightarrow> string \<Rightarrow> string" where
  "generateKey type identifier = ''rate_limit:'' @ type @ '':'' @ identifier"

text \<open>What the middleware reads of a request: \<^verbatim>\<open>req.user\<close>, if authentication set it,
  with its id and role, and the client address \<^verbatim>\<open>req.ip || req.connection.remoteAddress\<close>.\<close>

record req_user =
  uid :: "string option"
  role :: "string option"

record request =
  user :: "req_user option"
  ip :: string

text \<open>\<^verbatim>\<open>req.user?.id\<close>\<close>

definition user_id :: "request \<Rightarrow> string option" where
  "user_id req = (case user req of None \<Rightarrow> None | Some u \<Rightarrow> uid u)"

definition getClientIdentifier :: "request \<Rightarrow> string" where
  "getClientIdentifier req =
     (case user_id req of
        None \<Rightarrow> ''ip:'' @ ip req
      | Some u \<Rightarrow> if u = [] then ''ip:'' @ ip req else ''user:'' @ u)"

text \<open>
  The answer of a middleware: \<^verbatim>\<open>next()\<close>, with the rate limit headers when they were
  set (limit, remaining, reset), or a response with its status, error code and the
  details (limit, remaining, reset).
\<close>

datatype verdict =
    Proceed "(int \<times> int \<times> int) option"
  | Rejected int string "(int \<times> int \<times> int) option"

definition tierConfig_of :: "string \<Rightarrow> tierConfig io" where
  "tierConfig_of t w = (case tiers t of None \<Rightarrow> (Inl TypeError, w) | Some c \<Rightarrow> (Inr c, w))"

text \<open>The body of the \<^verbatim>\<open>try\<close> of \<^verbatim>\<open>middleware()\<close>.\<close>

definition middleware_try :: "(nat \<Rightarrow> int) \<Rightarrow> request \<Rightarrow> verdict io" where
  "middleware_try clock req =
     (let clientId = getClientIdentifier req in
      bind (getUserTier (user_id req)) (\<lambda>userTier.
      bind (tierConfig_of userTier) (\<lambda>tierConfig.
      let apiKey = generateKey ''api'' clientId in
      bind (isAllowed clock apiKey (requests tierConfig) (window tierConfig)) (\<lambda>isApiAllowed.
      if \<not> isApiAllowed then
        bind (getRemaining clock apiKey (requests tierConfig) (window tierConfig)) (\<lambda>remaining.
        bind (getRateLimitInfo clock apiKey (window tierConfig)) (\<lambda>info.
        return (Rejected 429 ''RATE_LIMIT_EXCEEDED''
                  (Some (requests tierConfig, remaining, reset info)))))
      else
        bind (recordRequest clock apiKey (window tierConfig)) (\<lambda>_.
        bind (getRemaining clock apiKey (requests tierConfig) (window tierConfig)) (\<lambda>remaining.
        bind (getRateLimitInfo clock apiKey (window tierConfig)) (\<lambda>info.
        return (Proceed (Some (requests tierConfig, remaining, reset info))))))))))"

text \<open>The \<^verbatim>\<open>catch\<close>: the error is logged and the request proceeds.\<close>

definition middleware :: "(nat \<Rightarrow> int) \<Rightarrow> request \<Rightarrow> world \<Rightarrow> verdict \<times> world" where
  "middleware clock req w =
     (case middleware_try clock req w of
        (Inr v, w') \<Rightarrow> (v, w')
      | (Inl e, w') \<Rightarrow> (Proceed None, w' \<lparr> console := console w' @ [''Rate limiting error:''] \<rparr>))"

definition fileUploadMiddleware_try :: "(nat \<Rightarrow> int) \<Rightarrow> request \<Rightarrow> verdict io" where
  "fileUploadMiddleware_try clock req =
     (let clientId = getClientIdentifier req in
      bind (getUserTier (user_id req)) (\<lambda>userTier.
      bind (tierConfig_of userTier) (\<lambda>tierConfig.
      let fileKey = generateKey ''files'' clientId in
      bind (isAllowed clock fileKey (files tierConfig) (fileWindow tierConfig)) (\<lambda>isFileAllowed.
      if \<not> isFileAllowed then
        bind (getRemaining clock fileKey (files tierConfig) (fileWindow tierConfig)) (\<lambda>remaining.
        bind (getRateLimitInfo clock fileKey (fileWindow tierConfig)) (\<lambda>info.
        return (Rejected 429 ''FILE_LIMIT_EXCEEDED''
                  (Some (files tierConfig, remaining, reset info)))))
      else
        bind (recordRequest clock fileKey (fileWindow tierConfig)) (\<lambda>_.
        return (Proceed None))))))"

definition fileUploadMiddleware ::
  "(nat \<Rightarrow> int) \<Rightarrow> request \<Rightarrow> world \<Rightarrow> verdict \<times> world" where
  "fileUploadMiddleware clock req w =
     (case fileUploadMiddleware_try clock req w of
        (Inr v, w') \<Rightarrow> (v, w')
      | (Inl e, w') \<Rightarrow>
          (Proceed None, w' \<lparr> console := console w' @ [''File upload rate limiting error:''] \<rparr>))"

definition webhookMiddleware_try :: "(nat \<Rightarrow> int) \<Rightarrow> request \<Rightarrow> verdict io" where
  "webhookMiddleware_try clock req =
     (let clientId = getClientIdentifier req;
          webhookKey = generateKey ''webhook'' clientId in
      bind (isAllowed clock webhookKey 100 (60 * 60)) (\<lambda>allowed.
      if \<not> allowed then
        bind (getRemaining clock webhookKey 100 (60 * 60)) (\<lambda>remaining.
        bind (getRateLimitInfo clock webhookKey (60 * 60)) (\<lambda>info.
        return (Rejected 429 ''WEBHOOK_LIMIT_EXCEEDED'' (Some (100, remaining, reset info)))))
      else
        bind (recordRequest clock webhookKey (60 * 60)) (\<lambda>_.
        return (Proceed None))))"

definition webhookMiddleware ::
  "(nat \<Rightarrow> int) \<Rightarrow> request \<Rightarrow> world \<Rightarrow> verdict \<times> world" where
  "webhookMiddleware clock req w =
     (case webhookMiddleware_try clock req w of
        (Inr v, w') \<Rightarrow> (v, w')
      | (Inl e, w') \<Rightarrow>
          (Proceed None, w' \<lparr> console := console w' @ [''Webhook rate limiting error:''] \<rparr>))"

definition adminMiddleware_try :: "(nat \<Rightarrow> int) \<Rightarrow> request \<Rightarrow> verdict io" where
  "adminMiddleware_try clock req =
     (if (case user req of None \<Rightarrow> True | Some u \<Rightarrow> role u \<noteq> Some ''admin'') then
        return (Rejected 403 ''ADMIN_ACCESS_REQUIRED'' None)
      else
        let clientId = getClientIdentifier req;
            adminKey = generateKey ''admin'' clientId in
        bind (isAllowed clock adminKey 1000 (15 * 60)) (\<lambda>allowed.
        if \<not> allowed then
          bind (getRemaining clock adminKey 1000 (15 * 60)) (\<lambda>remaining.
          bind (getRateLimitInfo clock adminKey (15 * 60)) (\<lambda>info.
          return (Rejected 429 ''ADMIN_LIMIT_EXCEEDED'' (Some (1000, remaining, reset info)))))
        else
          bind (recordRequest clock adminKey (15 * 60)) (\<lambda>_.
          return (Proceed None))))"

definition adminMiddleware ::
  "(nat \<Rightarrow> int) \<Rightarrow> request \<Rightarrow> world \<Rightarrow> verdict \<times> world" where
  "adminMiddleware clock req w =
     (case adminMiddleware_try clock req w of
        (Inr v, w') \<Rightarrow> (v, w')
      | (Inl e, w') \<Rightarrow>
          (Proceed None, w' \<lparr> console := console w' @ [''Admin rate limiting error:''] \<rparr>))"

text \<open>A sequence of requests of one client through a middleware, in order: the verdicts
  and the final world.\<close>

fun serve ::
  "(request \<Rightarrow> world \<Rightarrow> verdict \<times> world) \<Rightarrow> request list \<Rightarrow> world \<Rightarrow> verdict list \<times> world" where
  "serve mw [] w = ([], w)"
| "serve mw (r # rs) w =
     (case mw r w of (v, w') \<Rightarrow> (case serve mw rs w' of (vs, w'') \<Rightarrow> (v # vs, w'')))"

definition is_Proceed :: "verdict \<Rightarrow> bool" where
  "is_Proceed v = (case v of Proceed h \<Rightarrow> True | Rejected st code d \<Rightarrow> False)"

definition fresh_world :: world where
  "fresh_world = \<lparr> strings = Map.empty, zsets = Map.empty, ttl = Map.empty, faults = [],
                    calls = [], tick = 0, console = [] \<rparr>"

subsection \<open>Facts about the limiter's operations\<close>



lemma bind_Inl:
  "bind m f w = (Inl e, w'') \<Longrightarrow>
     m w = (Inl e, w'') \<or> (\<exists>x w'. m w = (Inr x, w') \<and> f x w' = (Inl e, w''))"
  by (auto simp: bind_def split: prod.splits sum.splits)












definition anon :: request where
  "anon = \<lparr> user = None, ip = ''10.0.0.1'' \<rparr>"


lemmas rl_eval = middleware_def middleware_try_def fileUploadMiddleware_def fileUploadMiddleware_try_def
  bind_def return_def date_now_def redis_call_def the_zset_def redis_get_def zrangebyscore_def
  zadd_def zremrangebyscore_def expire_def tiers_def getUserTier_def getRateLimitInfo_def
  isAllowed_def recordRequest_def getRemaining_def generateKey_def getClientIdentifier_def
  user_id_def tierConfig_of_def Let_def
























definition clock_at :: "int \<Rightarrow> nat \<Rightarrow> int" where
  "clock_at t k = t"

definition api_key :: string where
  "api_key = generateKey ''api'' (getClientIdentifier anon)"

lemma same_ms_step:
  assumes "faults w = []"
    and "zsets w api_key = None \<or> zsets w api_key = Some [(t, t)]"
  shows "\<exists>h w'. middleware (clock_at t) anon w = (Proceed h, w') \<and> faults w' = []
           \<and> zsets w' api_key = Some [(t, t)]"
  using assms
  by (auto simp: rl_eval api_key_def anon_def clock_at_def)

lemma same_ms_serve:
  assumes "faults w = []"
    and "zsets w api_key = None \<or> zsets w api_key = Some [(t, t)]"
  shows "length (filter is_Proceed (fst (serve (middleware (clock_at t)) (replicate n anon) w))) = n"
  using assms
proof (induction n arbitrary: w)
  case 0
  then show ?case by simp
next
  case (Suc n)
  from same_ms_step [OF Suc.prems] obtain h w' where
    s: "middleware (clock_at t) anon w = (Proceed h, w')" "faults w' = []"
       "zsets w' api_key = Some [(t, t)]"
    by blast
  obtain vs w'' where sv: "serve (middleware (clock_at t)) (replicate n anon) w' = (vs, w'')"
    by (cases "serve (middleware (clock_at t)) (replicate n anon) w'") auto
  from Suc.IH [of w'] s sv have n: "length (filter is_Proceed vs) = n"
    by simp
  have p: "is_Proceed (Proceed h)"
    by (simp add: is_Proceed_def)
  have "serve (middleware (clock_at t)) (replicate (Suc n) anon) w = (Proceed h # vs, w'')"
    using s(1) sv by simp
  then show ?case
    using n p by simp
qed







section \<open>File processing worker (src/workers/processor.js)\<close>

subsection \<open>JavaScript strings and regular expressions\<close>

text \<open>
  Text is ASCII: a \<open>char\<close> is one byte, and the whitespace class \<^verbatim>\<open>\s\<close> is space, tab,
  line feed, vertical tab, form feed and carriage return. \<^verbatim>\<open>toLowerCase\<close>, \<^verbatim>\<open>trim\<close>
  and \<^verbatim>\<open>includes\<close> are the methods of \<^verbatim>\<open>String.prototype\<close>.
\<close>

definition toLowerCase_char :: "char \<Rightarrow> char" where
  "toLowerCase_char c =
     (if CHR ''A'' \<le> c \<and> c \<le> CHR ''Z''
      then (case map_of (zip ''ABCDEFGHIJKLMNOPQRSTUVWXYZ'' ''abcdefghijklmnopqrstuvwxyz'') c of
              Some l \<Rightarrow> l | None \<Rightarrow> c)
      else c)"

definition toUpperCase_char :: "char \<Rightarrow> char" where
  "toUpperCase_char c =
     (if CHR ''a'' \<le> c \<and> c \<le> CHR ''z''
      then (case map_of (zip ''abcdefghijklmnopqrstuvwxyz'' ''ABCDEFGHIJKLMNOPQRSTUVWXYZ'') c of
              Some l \<Rightarrow> l | None \<Rightarrow> c)
      else c)"

definition toLowerCase :: "string \<Rightarrow> string" where
  "toLowerCase s = map toLowerCase_char s"

definition is_space :: "char \<Rightarrow> bool" where
  "is_space c = (c \<in> set [CHR '' '', CHR 0x09, CHR 0x0A, CHR 0x0B, CHR 0x0C, CHR 0x0D])"

definition is_digit :: "char \<Rightarrow> bool" where
  "is_digit c = (CHR ''0'' \<le> c \<and> c \<le> CHR ''9'')"

definition trim :: "string \<Rightarrow> string" where
  "trim s = rev (dropWhile is_space (rev (dropWhile is_space s)))"

fun starts :: "string \<Rightarrow> string \<Rightarrow> bool" where
  "starts [] s = True"
| "starts (p # ps) [] = False"
| "starts (p # ps) (c # cs) = (p = c \<and> starts ps cs)"

fun str_includes :: "string \<Rightarrow> string \<Rightarrow> bool" where
  "str_includes [] k = (k = [])"
| "str_includes (c # cs) k = (starts k (c # cs) \<or> str_includes cs k)"

datatype item = Rng char char | Chr char | WS | DIGIT

datatype regex =
    Eps
  | Class "item list"
  | NClass "item list"
  | Str string
  | Seq regex regex
  | Alt regex regex
  | Star regex
  | Group nat regex

fun item_has :: "item \<Rightarrow> char \<Rightarrow> bool" where
  "item_has (Rng a b) c = (a \<le> c \<and> c \<le> b)"
| "item_has (Chr a) c = (c = a)"
| "item_has WS c = is_space c"
| "item_has DIGIT c = is_digit c"

definition class_has :: "bool \<Rightarrow> item list \<Rightarrow> char \<Rightarrow> bool" where
  "class_has icase its c =
     (if icase
      then list_ex (\<lambda>i. item_has i (toLowerCase_char c) \<or> item_has i (toUpperCase_char c)) its
      else list_ex (\<lambda>i. item_has i c) its)"

fun str_prefix :: "bool \<Rightarrow> string \<Rightarrow> string \<Rightarrow> (string \<times> string) option" where
  "str_prefix icase [] s = Some ([], s)"
| "str_prefix icase (p # ps) [] = None"
| "str_prefix icase (p # ps) (c # cs) =
     (if (if icase then toLowerCase_char p = toLowerCase_char c else p = c)
      then (case str_prefix icase ps cs of None \<Rightarrow> None | Some (m, s') \<Rightarrow> Some (c # m, s'))
      else None)"

text \<open>
  A regular expression is matched by backtracking: \<open>rmatch icase r (s, c)\<close> lists, in the
  order in which a backtracking matcher tries them, every way for \<open>r\<close> to match a prefix
  of \<open>s\<close>: the text matched, the rest of the input, and the capture groups set so far
  (latest first). The head of the list is the match JavaScript reports: alternatives are
  tried left to right, and a quantifier is greedy. An iteration of a star that
  consumes nothing ends the loop, as in ECMAScript. \<open>icase\<close> is the flag \<^verbatim>\<open>i\<close>.
\<close>

type_synonym caps = "(nat \<times> string) list"

function (sequential) rmatch ::
  "bool \<Rightarrow> regex \<Rightarrow> string \<times> caps \<Rightarrow> (string \<times> string \<times> caps) list" where
  "rmatch icase Eps (s, c) = [([], s, c)]"
| "rmatch icase (Class its) (s, c) =
     (case s of [] \<Rightarrow> [] | x # xs \<Rightarrow> if class_has icase its x then [([x], xs, c)] else [])"
| "rmatch icase (NClass its) (s, c) =
     (case s of [] \<Rightarrow> [] | x # xs \<Rightarrow> if class_has icase its x then [] else [([x], xs, c)])"
| "rmatch icase (Str p) (s, c) =
     (case str_prefix icase p s of None \<Rightarrow> [] | Some (m, s') \<Rightarrow> [(m, s', c)])"
| "rmatch icase (Seq r1 r2) (s, c) =
     concat (map (\<lambda>(m1, s1, c1). map (\<lambda>(m2, s2, c2). (m1 @ m2, s2, c2)) (rmatch icase r2 (s1, c1)))
               (rmatch icase r1 (s, c)))"
| "rmatch icase (Alt r1 r2) (s, c) = rmatch icase r1 (s, c) @ rmatch icase r2 (s, c)"
| "rmatch icase (Star r) (s, c) =
     concat (map (\<lambda>(m1, s1, c1).
                    if length s1 < length s
                    then map (\<lambda>(m2, s2, c2). (m1 @ m2, s2, c2)) (rmatch icase (Star r) (s1, c1))
                    else [])
               (rmatch icase r (s, c))) @ [([], s, c)]"
| "rmatch icase (Group n r) (s, c) =
     map (\<lambda>(m, s', c'). (m, s', (n, m) # c')) (rmatch icase r (s, c))"
  by pat_completeness auto
termination
  by (relation "measures [\<lambda>(icase, r, s, c). size r, \<lambda>(icase, r, s, c). length s]") auto


declare rmatch.simps(7) [simp del]

lemma str_prefix_append: "str_prefix icase p s = Some (m, s') \<Longrightarrow> s = m @ s'"
  by (induction icase p s arbitrary: m s' rule: str_prefix.induct)
     (auto split: if_splits option.splits)

lemma rmatch_append: "(m, s', c') \<in> set (rmatch icase r (s, c)) \<Longrightarrow> s = m @ s'"
proof (induction icase r "(s, c)" arbitrary: m s' c' s c rule: rmatch.induct)
  case (1 icase s c)
  then show ?case by simp
next
  case (2 icase its s c)
  then show ?case by (auto split: list.splits if_splits)
next
  case (3 icase its s c)
  then show ?case by (auto split: list.splits if_splits)
next
  case (4 icase p s c)
  then show ?case by (auto split: option.splits dest: str_prefix_append [OF sym])
next
  case (5 icase r1 r2 s c)
  from "5.prems" obtain m1 s1 c1 m2 where
    a: "(m1, s1, c1) \<in> set (rmatch icase r1 (s, c))" and
    b: "(m2, s', c') \<in> set (rmatch icase r2 (s1, c1))" and m: "m = m1 @ m2"
    by auto
  from "5.hyps"(1) [OF a] have "s = m1 @ s1" .
  moreover from "5.hyps"(2) [OF a refl refl b] have "s1 = m2 @ s'" .
  ultimately show ?case using m by simp
next
  case (6 icase r1 r2 s c)
  then show ?case by auto
next
  case (7 icase r s c)
  from "7.prems" have
    "(m, s', c') = ([], s, c) \<or>
     (\<exists>m1 s1 c1 m2. (m1, s1, c1) \<in> set (rmatch icase r (s, c)) \<and> length s1 < length s
        \<and> (m2, s', c') \<in> set (rmatch icase (Star r) (s1, c1)) \<and> m = m1 @ m2)"
    by (auto simp: rmatch.simps(7) [of icase r s c] split: if_splits)
  then show ?case
  proof
    assume "(m, s', c') = ([], s, c)"
    then show ?thesis by simp
  next
    assume "\<exists>m1 s1 c1 m2. (m1, s1, c1) \<in> set (rmatch icase r (s, c)) \<and> length s1 < length s
        \<and> (m2, s', c') \<in> set (rmatch icase (Star r) (s1, c1)) \<and> m = m1 @ m2"
    then obtain m1 s1 c1 m2 where
      a: "(m1, s1, c1) \<in> set (rmatch icase r (s, c))" and lt: "length s1 < length s" and
      b: "(m2, s', c') \<in> set (rmatch icase (Star r) (s1, c1))" and m: "m = m1 @ m2"
      by blast
    from "7.hyps"(1) [OF a] have "s = m1 @ s1" .
    moreover from "7.hyps"(2) [OF a refl refl lt b] have "s1 = m2 @ s'" .
    ultimately show ?thesis using m by simp
  qed
next
  case (8 icase n r s c)
  from "8.prems" obtain c0 where "(m, s', c0) \<in> set (rmatch icase r (s, c))"
    by auto
  from "8.hyps" [OF this] show ?case .
qed

fun exec :: "bool \<Rightarrow> regex \<Rightarrow> string \<Rightarrow> (string \<times> caps \<times> string) option" where
  "exec icase r s =
     (case rmatch icase r (s, []) of
        (m, s', c) # _ \<Rightarrow> Some (m, c, s')
      | [] \<Rightarrow> (case s of [] \<Rightarrow> None | x # xs \<Rightarrow> exec icase r xs))"

declare exec.simps [simp del]

lemma exec_suffix: "exec icase r s = Some (m, c, s') \<Longrightarrow> \<exists>pre. s = pre @ m @ s'"
proof (induction s)
  case Nil
  show ?case
  proof (cases "rmatch icase r ([], [])")
    case Nil
    with Nil.prems show ?thesis
      by (simp add: exec.simps [of icase r "[]"])
  next
    case (Cons a as)
    with Nil.prems have a: "a = (m, s', c)"
      by (auto simp: exec.simps [of icase r "[]"] split: prod.splits)
    with Cons have "(m, s', c) \<in> set (rmatch icase r ([], []))" by simp
    from rmatch_append [OF this] have "[] = [] @ m @ s'" by simp
    then show ?thesis by blast
  qed
next
  case (Cons x xs)
  show ?case
  proof (cases "rmatch icase r (x # xs, [])")
    case Nil
    with Cons.prems have "exec icase r xs = Some (m, c, s')"
      by (simp add: exec.simps [of icase r "x # xs"])
    from Cons.IH [OF this] obtain pre where "xs = pre @ m @ s'" by blast
    then have "x # xs = (x # pre) @ m @ s'" by simp
    then show ?thesis by blast
  next
    case (Cons a as)
    with Cons.prems have a: "a = (m, s', c)"
      by (auto simp: exec.simps [of icase r "x # xs"] split: prod.splits)
    with Cons have "(m, s', c) \<in> set (rmatch icase r (x # xs, []))" by simp
    from rmatch_append [OF this] have "x # xs = [] @ m @ s'" by simp
    then show ?thesis by blast
  qed
qed

function matchAll :: "bool \<Rightarrow> regex \<Rightarrow> string \<Rightarrow> (string \<times> caps) list" where
  "matchAll icase r s =
     (case exec icase r s of
        None \<Rightarrow> []
      | Some (m, c, s') \<Rightarrow>
          (m, c) # (if m = [] then (case s' of [] \<Rightarrow> [] | x # xs \<Rightarrow> matchAll icase r xs)
                    else matchAll icase r s'))"
  by pat_completeness auto
termination
proof (relation "measure (\<lambda>(icase, r, s). length s)")
  show "wf (measure (\<lambda>(icase, r, s). length s))" by simp
next
  fix icase r s x2 m y c s' x21 x22
  assume "exec icase r s = Some x2" "(m, y) = x2" "(c, s') = y" "m = []" "s' = x21 # x22"
  then have "exec icase r s = Some (m, c, x21 # x22)" by simp
  from exec_suffix [OF this] show "((icase, r, x22), icase, r, s) \<in> measure (\<lambda>(icase, r, s). length s)"
    by auto
next
  fix icase r s x2 m y c s'
  assume "exec icase r s = Some x2" "(m, y) = x2" "(c, s') = y" "m \<noteq> []"
  then have "exec icase r s = Some (m, c, s')" by simp
  from exec_suffix [OF this] \<open>m \<noteq> []\<close>
  show "((icase, r, s'), icase, r, s) \<in> measure (\<lambda>(icase, r, s). length s)"
    by auto
qed

declare matchAll.simps [simp del]

lemma rmatch_Star_Class:
  "rmatch icase (Star (Class its)) (s, c) =
     (case s of
        [] \<Rightarrow> [([], [], c)]
      | x # xs \<Rightarrow>
          if class_has icase its x
          then map (\<lambda>(m, s', c'). (x # m, s', c')) (rmatch icase (Star (Class its)) (xs, c))
                 @ [([], s, c)]
          else [([], s, c)])"
proof (cases s)
  case Nil
  then show ?thesis by (simp add: rmatch.simps(7) [of icase "Class its" "[]" c])
next
  case (Cons x xs)
  then show ?thesis by (simp add: rmatch.simps(7) [of icase "Class its" "x # xs" c])
qed

lemma rmatch_Star_NClass:
  "rmatch icase (Star (NClass its)) (s, c) =
     (case s of
        [] \<Rightarrow> [([], [], c)]
      | x # xs \<Rightarrow>
          if class_has icase its x
          then [([], s, c)]
          else map (\<lambda>(m, s', c'). (x # m, s', c')) (rmatch icase (Star (NClass its)) (xs, c))
                 @ [([], s, c)])"
proof (cases s)
  case Nil
  then show ?thesis by (simp add: rmatch.simps(7) [of icase "NClass its" "[]" c])
next
  case (Cons x xs)
  then show ?thesis by (simp add: rmatch.simps(7) [of icase "NClass its" "x # xs" c])
qed

text \<open>Quantifiers and other spellings of the regular expression syntax.\<close>

definition Plus :: "regex \<Rightarrow> regex" where
  "Plus r = Seq r (Star r)"

definition Opt :: "regex \<Rightarrow> regex" where
  "Opt r = Alt r Eps"

fun seqs :: "regex list \<Rightarrow> regex" where
  "seqs [] = Eps"
| "seqs [r] = r"
| "seqs (r # rs) = Seq r (seqs rs)"

fun alts :: "regex list \<Rightarrow> regex" where
  "alts [] = NClass [Rng (CHR 0x00) (CHR 0xFF)]"
| "alts [r] = r"
| "alts (r # rs) = Alt r (alts rs)"

text \<open>\<open>times n r\<close> is \<^verbatim>\<open>r{n}\<close>, \<open>between lo hi r\<close> is \<^verbatim>\<open>r{lo,hi}\<close>.\<close>

fun times :: "nat \<Rightarrow> regex \<Rightarrow> regex" where
  "times 0 r = Eps"
| "times (Suc n) r = Seq r (times n r)"

fun upto :: "nat \<Rightarrow> regex \<Rightarrow> regex" where
  "upto 0 r = Eps"
| "upto (Suc n) r = Alt (Seq r (upto n r)) Eps"

definition between :: "nat \<Rightarrow> nat \<Rightarrow> regex \<Rightarrow> regex" where
  "between lo hi r = Seq (times lo r) (upto (hi - lo) r)"

text \<open>\<^verbatim>\<open>match[n]\<close>\<close>

definition group :: "caps \<Rightarrow> nat \<Rightarrow> string option" where
  "group c n = map_of c n"

text \<open>The loop \<^verbatim>\<open>for (const pattern of patterns) { ... if (match) { ...; break; } }\<close>.\<close>

fun first_exec :: "bool \<Rightarrow> regex list \<Rightarrow> string \<Rightarrow> (string \<times> caps \<times> string) option" where
  "first_exec icase [] s = None"
| "first_exec icase (r # rs) s =
     (case exec icase r s of Some x \<Rightarrow> Some x | None \<Rightarrow> first_exec icase rs s)"

text \<open>
  \<^verbatim>\<open>parseInt\<close> of a text that starts with decimal digits (every text it is applied to here
  was matched by \<^verbatim>\<open>\d\<close>); \<open>None\<close> is \<^verbatim>\<open>NaN\<close>.
\<close>

definition digit_value :: "char \<Rightarrow> nat" where
  "digit_value c = of_char c - of_char CHR ''0''"

definition parseInt :: "string \<Rightarrow> nat option" where
  "parseInt s =
     (case takeWhile is_digit s of
        [] \<Rightarrow> None
      | ds \<Rightarrow> Some (foldl (\<lambda>n d. 10 * n + digit_value d) 0 ds))"

subsection \<open>Field extraction\<close>

record propertyInfo =
  address :: "string option"
  city :: "string option"
  state :: "string option"
  zipCode :: "string option"
  propertyType :: "string option"
  squareFootage :: "nat option"
  yearBuilt :: "nat option"
  bedrooms :: "nat option"
  bathrooms :: "string option"

definition letter_space :: "item list" where
  "letter_space = [Rng CHR ''A'' CHR ''Z'', Rng CHR ''a'' CHR ''z'', WS]"

definition comma_space :: "item list" where
  "comma_space = [Chr CHR '','', WS]"

definition street_suffix :: regex where
  "street_suffix = alts (map Str
     [''Street'', ''St'', ''Avenue'', ''Ave'', ''Road'', ''Rd'', ''Boulevard'', ''Blvd'',
      ''Drive'', ''Dr'', ''Lane'', ''Ln'', ''Court'', ''Ct'', ''Place'', ''Pl'', ''Way'',
      ''Circle'', ''Cir''])"

text \<open>Both address patterns carry the flags \<^verbatim>\<open>gi\<close>; \<^verbatim>\<open>content.match\<close> with \<^verbatim>\<open>g\<close> gives
  the texts of all matches, and \<^verbatim>\<open>match[0]\<close> is the first.\<close>

definition addressPatterns :: "regex list" where
  "addressPatterns =
     [Group 1 (seqs [Plus (Class [DIGIT]), Plus (Class [WS]), Plus (Class letter_space),
                     street_suffix]),
      Group 1 (seqs [Plus (Class [DIGIT]), Plus (Class [WS]), Plus (Class letter_space),
                     street_suffix, Plus (Class comma_space), Plus (Class letter_space),
                     Plus (Class comma_space), times 2 (Class [Rng CHR ''A'' CHR ''Z'']),
                     Plus (Class comma_space), times 5 (Class [DIGIT])])]"

definition cityStateZipPattern :: regex where
  "cityStateZipPattern =
     seqs [Group 1 (Plus (Class letter_space)), Plus (Class comma_space),
           Group 2 (times 2 (Class [Rng CHR ''A'' CHR ''Z''])), Plus (Class comma_space),
           Group 3 (times 5 (Class [DIGIT]))]"

definition propertyTypePatterns :: "regex list" where
  "propertyTypePatterns =
     [Group 1 (alts [seqs [Str ''single'', Plus (Class [WS]), Str ''family''],
                     seqs [Str ''multi'', Plus (Class [WS]), Str ''family''],
                     Str ''condominium'', Str ''townhouse'', Str ''apartment'',
                     Str ''commercial'', Str ''residential'']),
      Group 1 (alts (map Str [''house'', ''home'', ''condo'', ''apartment'', ''building'',
                               ''structure'']))]"

definition sqftPattern :: regex where
  "sqftPattern =
     seqs [Group 1 (Seq (between 1 3 (Class [DIGIT]))
                        (Star (Seq (Str '','') (times 3 (Class [DIGIT]))))),
           Star (Class [WS]),
           alts [seqs [Str ''sq'', Star (Class [WS]), Str ''ft''],
                 seqs [Str ''square'', Star (Class [WS]), Str ''feet''],
                 Str ''sf'']]"

definition yearPattern :: regex where
  "yearPattern =
     seqs [alts (map Str [''built'', ''constructed'', ''year'']), Star (Class [WS]),
           Opt (Seq (Str ''in'') (Star (Class [WS]))),
           Group 1 (times 4 (Class [DIGIT]))]"

definition bedroomPattern :: regex where
  "bedroomPattern =
     seqs [Group 1 (Plus (Class [DIGIT])), Star (Class [WS]),
           alts (map Str [''bedroom'', ''bed'', ''br''])]"

definition bathroomPattern :: regex where
  "bathroomPattern =
     seqs [Group 1 (Seq (Plus (Class [DIGIT]))
                        (Opt (Seq (Str ''.'') (Plus (Class [DIGIT]))))),
           Star (Class [WS]),
           alts (map Str [''bathroom'', ''bath'', ''ba''])]"

text \<open>
  \<^verbatim>\<open>extractPropertyInfo\<close>. \<open>bathrooms\<close> holds the decimal text of which the source stores
  the \<^verbatim>\<open>parseFloat\<close>.
\<close>

definition extractPropertyInfo :: "string \<Rightarrow> propertyInfo" where
  "extractPropertyInfo content =
     (let cityStateZipMatch = exec False cityStateZipPattern content in
      \<lparr> address =
          (case first_exec True addressPatterns content of
             None \<Rightarrow> None | Some (m, c, rest) \<Rightarrow> Some (trim m)),
        city =
          (case cityStateZipMatch of
             None \<Rightarrow> None | Some (m, c, rest) \<Rightarrow> map_option trim (group c 1)),
        state =
          (case cityStateZipMatch of None \<Rightarrow> None | Some (m, c, rest) \<Rightarrow> group c 2),
        zipCode =
          (case cityStateZipMatch of None \<Rightarrow> None | Some (m, c, rest) \<Rightarrow> group c 3),
        propertyType =
          (case first_exec True propertyTypePatterns content of
             None \<Rightarrow> None | Some (m, c, rest) \<Rightarrow> map_option toLowerCase (group c 1)),
        squareFootage =
          (case exec True sqftPattern content of
             None \<Rightarrow> None
           | Some (m, c, rest) \<Rightarrow>
               Option.bind (group c 1) (\<lambda>g. parseInt (filter (\<lambda>x. x \<noteq> CHR '','') g))),
        yearBuilt =
          (case exec True yearPattern content of
             None \<Rightarrow> None | Some (m, c, rest) \<Rightarrow> Option.bind (group c 1) parseInt),
        bedrooms =
          (case exec True bedroomPattern content of
             None \<Rightarrow> None | Some (m, c, rest) \<Rightarrow> Option.bind (group c 1) parseInt),
        bathrooms =
          (case exec True bathroomPattern content of
             None \<Rightarrow> None | Some (m, c, rest) \<Rightarrow> group c 1) \<rparr>)"

record inspectorInfo =
  inspector_name :: "string option"
  license :: "string option"
  company :: "string option"
  phone :: "string option"
  email :: "string option"
  inspectionDate :: "string option"

definition letters :: "item list" where
  "letters = [Rng CHR ''A'' CHR ''Z'', Rng CHR ''a'' CHR ''z'']"

definition namePatterns :: "regex list" where
  "namePatterns =
     [seqs [alts [Str ''inspector'',
                  seqs [Str ''inspected'', Plus (Class [WS]), Str ''by''],
                  seqs [Str ''performed'', Plus (Class [WS]), Str ''by'']],
            Star (Class [WS]), Opt (Str '':''), Star (Class [WS]),
            Group 1 (Plus (Class letter_space))],
      seqs [Group 1 (seqs [Class [Rng CHR ''A'' CHR ''Z''], Plus (Class [Rng CHR ''a'' CHR ''z'']),
                           Plus (Class [WS]),
                           Class [Rng CHR ''A'' CHR ''Z''], Plus (Class [Rng CHR ''a'' CHR ''z''])]),
            Star (Class [WS]), alts (map Str [''inspector'', ''inspected''])]]"

definition licensePatterns :: "regex list" where
  "licensePatterns =
     [seqs [alts [Str ''license'',
                  seqs [Str ''lic'', Star (Class [WS]), Str ''#''],
                  seqs [Str ''license'', Star (Class [WS]), Str ''number'']],
            Star (Class [WS]), Opt (Str '':''), Star (Class [WS]),
            Group 1 (Plus (Class [Rng CHR ''A'' CHR ''Z'', DIGIT, Chr CHR ''-'']))],
      Group 1 (Seq (between 2 3 (Class [Rng CHR ''A'' CHR ''Z'']))
                   (between 6 8 (Class [DIGIT])))]"

definition companyPatterns :: "regex list" where
  "companyPatterns =
     [seqs [alts (map Str [''company'', ''firm'', ''agency'']),
            Star (Class [WS]), Opt (Str '':''), Star (Class [WS]),
            Group 1 (Plus (Class [Rng CHR ''A'' CHR ''Z'', Rng CHR ''a'' CHR ''z'', WS,
                                  Chr CHR ''&'']))],
      Group 1 (seqs [Class [Rng CHR ''A'' CHR ''Z''], Plus (Class [Rng CHR ''a'' CHR ''z'']),
                     Plus (Class [WS]),
                     alts (map Str [''Inspections'', ''Services'', ''Company'', ''Inc'', ''LLC'',
                                    ''Ltd''])])]"

definition phone_sep :: regex where
  "phone_sep = Opt (Class [Chr CHR ''-'', Chr CHR ''.'', WS])"

definition phonePattern :: regex where
  "phonePattern =
     seqs [alts (map Str [''phone'', ''tel'', ''telephone'']),
           Star (Class [WS]), Opt (Str '':''), Star (Class [WS]),
           Group 1 (seqs [times 3 (Class [DIGIT]), phone_sep, times 3 (Class [DIGIT]), phone_sep,
                          times 4 (Class [DIGIT])])]"

definition emailPattern :: regex where
  "emailPattern =
     Group 1 (seqs
       [Plus (Class [Rng CHR ''a'' CHR ''z'', Rng CHR ''A'' CHR ''Z'', DIGIT, Chr CHR ''.'',
                     Chr CHR ''_'', Chr CHR ''%'', Chr CHR ''+'', Chr CHR ''-'']),
        Str ''@'',
        Plus (Class [Rng CHR ''a'' CHR ''z'', Rng CHR ''A'' CHR ''Z'', DIGIT, Chr CHR ''.'',
                     Chr CHR ''-'']),
        Str ''.'',
        Seq (times 2 (Class [Rng CHR ''a'' CHR ''z'', Rng CHR ''A'' CHR ''Z'']))
            (Star (Class [Rng CHR ''a'' CHR ''z'', Rng CHR ''A'' CHR ''Z'']))])"

definition date_sep :: regex where
  "date_sep = Class [Chr CHR ''/'', Chr CHR ''-'']"

definition date_text :: regex where
  "date_text =
     seqs [between 1 2 (Class [DIGIT]), date_sep, between 1 2 (Class [DIGIT]), date_sep,
           between 2 4 (Class [DIGIT])]"

definition datePatterns :: "regex list" where
  "datePatterns =
     [seqs [alts [seqs [Str ''inspection'', Plus (Class [WS]), Str ''date''],
                  seqs [Str ''date'', Plus (Class [WS]), Str ''of'', Plus (Class [WS]),
                        Str ''inspection''],
                  seqs [Str ''inspected'', Plus (Class [WS]), Str ''on'']],
            Star (Class [WS]), Opt (Str '':''), Star (Class [WS]),
            Group 1 date_text],
      Group 1 date_text]"

text \<open>
  \<^verbatim>\<open>extractInspectorInfo\<close>. The date is parsed by the library \<^verbatim>\<open>moment\<close>; \<open>moment_iso\<close>
  stands for \<^verbatim>\<open>moment(text, formats).toISOString()\<close>, which is \<^verbatim>\<open>null\<close> for an invalid date.
\<close>

definition extractInspectorInfo :: "(string \<Rightarrow> string option) \<Rightarrow> string \<Rightarrow> inspectorInfo" where
  "extractInspectorInfo moment_iso content =
     \<lparr> inspector_name =
         (case first_exec True namePatterns content of
            None \<Rightarrow> None | Some (m, c, rest) \<Rightarrow> map_option trim (group c 1)),
       license =
         (case first_exec True licensePatterns content of
            None \<Rightarrow> None | Some (m, c, rest) \<Rightarrow> map_option trim (group c 1)),
       company =
         (case first_exec True companyPatterns content of
            None \<Rightarrow> None | Some (m, c, rest) \<Rightarrow> map_option trim (group c 1)),
       phone =
         (case exec True phonePattern content of
            None \<Rightarrow> None | Some (m, c, rest) \<Rightarrow> group c 1),
       email =
         (case exec True emailPattern content of
            None \<Rightarrow> None | Some (m, c, rest) \<Rightarrow> group c 1),
       inspectionDate =
         (case first_exec True datePatterns content of
            None \<Rightarrow> None | Some (m, c, rest) \<Rightarrow> Option.bind (group c 1) moment_iso) \<rparr>"

record finding =
  finding_id :: string
  description :: string
  severity :: string
  category :: string
  recommendation :: "string option"
  estimatedCost :: "int option"
  priority :: string

definition finding_tail :: regex where
  "finding_tail =
     seqs [Star (Class [WS]), Opt (Str '':''), Star (Class [WS]),
           Group 1 (Plus (NClass [Chr CHR ''.'', Chr (CHR 0x0A)]))]"

definition findingPatterns :: "regex list" where
  "findingPatterns =
     [Seq (alts (map Str [''finding'', ''issue'', ''problem'', ''defect'', ''deficiency'']))
          finding_tail,
      Seq (alts (map Str [''recommendation'', ''recommend''])) finding_tail,
      Seq (alts (map Str [''repair'', ''fix'', ''replace''])) finding_tail]"

text \<open>The keyword tables, in the order of \<^verbatim>\<open>Object.entries\<close>.\<close>

definition severityKeywords :: "(string \<times> string list) list" where
  "severityKeywords =
     [(''high'', [''critical'', ''urgent'', ''safety'', ''hazard'', ''danger'', ''emergency'',
                  ''immediate'']),
      (''medium'', [''moderate'', ''attention'', ''concern'', ''issue'', ''problem'']),
      (''low'', [''minor'', ''cosmetic'', ''maintenance'', ''suggestion'', ''recommendation''])]"

definition categoryKeywords :: "(string \<times> string list) list" where
  "categoryKeywords =
     [(''electrical'', [''electrical'', ''wiring'', ''outlet'', ''circuit'', ''breaker'', ''panel'']),
      (''plumbing'', [''plumbing'', ''pipe'', ''leak'', ''drain'', ''faucet'', ''toilet'']),
      (''structural'', [''structural'', ''foundation'', ''wall'', ''roof'', ''beam'', ''support'']),
      (''hvac'', [''hvac'', ''heating'', ''cooling'', ''furnace'', ''ac'', ''air conditioning'']),
      (''roofing'', [''roof'', ''shingle'', ''gutter'', ''chimney'', ''flashing'']),
      (''exterior'', [''exterior'', ''siding'', ''window'', ''door'', ''deck'', ''patio'']),
      (''interior'', [''interior'', ''floor'', ''ceiling'', ''paint'', ''drywall''])]"

text \<open>
  The loop over a keyword table: the first entry one of whose keywords occurs in the
  lower-cased description gives the label and ends the loop; with no such entry the
  label keeps the value it had.
\<close>

fun first_label :: "(string \<times> string list) list \<Rightarrow> string \<Rightarrow> string \<Rightarrow> string" where
  "first_label [] desc current = current"
| "first_label ((label, keywords) # entries) desc current =
     (if list_ex (\<lambda>keyword. str_includes (toLowerCase desc) keyword) keywords then label
      else first_label entries desc current)"

text \<open>One \<^verbatim>\<open>finding\<close> object, from the description and the value of \<^verbatim>\<open>uuidv4()\<close>.\<close>

definition make_finding :: "string \<Rightarrow> string \<Rightarrow> finding" where
  "make_finding uuid desc =
     \<lparr> finding_id = uuid, description = desc,
       severity = first_label severityKeywords desc ''medium'',
       category = first_label categoryKeywords desc ''general'',
       recommendation = None, estimatedCost = None, priority = ''medium'' \<rparr>"

text \<open>
  \<^verbatim>\<open>extractFindings\<close>: the matches of the first pattern in order, then those of the
  second, then those of the third. \<open>uuids k\<close> is the identifier drawn for finding \<open>k\<close>.
  Group 1 takes part in every match of these patterns.
\<close>

definition extractFindings :: "(nat \<Rightarrow> string) \<Rightarrow> string \<Rightarrow> finding list" where
  "extractFindings uuids content =
     (let matches = concat (map (\<lambda>pattern. matchAll True pattern content) findingPatterns)
      in map (\<lambda>(k, (m, c)). make_finding (uuids k)
                                 (trim (case group c 1 of None \<Rightarrow> [] | Some d \<Rightarrow> d)))
             (enumerate 0 matches))"

subsection \<open>Parsing, persistence and the job handler\<close>

text \<open>The parsers are libraries (pdf-parse, mammoth, xlsx,
  tesseract): each is a parameter that gives the text of a file or throws; the Excel
  parser also gives the sheet data, kept as its JSON text.\<close>

text \<open>\<^verbatim>\<open>error.message\<close>\<close>

definition message :: "exn \<Rightarrow> string" where
  "message e = (case e of Error m \<Rightarrow> m | RedisError \<Rightarrow> ''redis'' | TypeError \<Rightarrow> ''type'')"

record parsers =
  pdfParser :: "string \<Rightarrow> exn + string"
  wordParser :: "string \<Rightarrow> exn + string"
  excelParser :: "string \<Rightarrow> exn + (string \<times> string)"
  ocrParser :: "string \<Rightarrow> exn + string"

record processedData =
  content :: string
  extractedData :: string
  pd_propertyInfo :: propertyInfo
  pd_inspectorInfo :: inspectorInfo
  findings :: "finding list"

definition parse_by_type :: "parsers \<Rightarrow> string \<Rightarrow> string \<Rightarrow> exn + (string \<times> string)" where
  "parse_by_type ps filePath fileType =
     (let t = toLowerCase fileType in
      if t = ''pdf'' then
        (case pdfParser ps filePath of Inl e \<Rightarrow> Inl e | Inr c \<Rightarrow> Inr (c, ''{}''))
      else if t = ''docx'' \<or> t = ''doc'' then
        (case wordParser ps filePath of Inl e \<Rightarrow> Inl e | Inr c \<Rightarrow> Inr (c, ''{}''))
      else if t = ''xlsx'' \<or> t = ''xls'' then excelParser ps filePath
      else if t = ''jpg'' \<or> t = ''jpeg'' \<or> t = ''png'' \<or> t = ''tiff'' \<or> t = ''bmp'' then
        (case ocrParser ps filePath of Inl e \<Rightarrow> Inl e | Inr c \<Rightarrow> Inr (c, ''{}''))
      else Inl (Error (''Unsupported file type: '' @ fileType)))"

definition processFile ::
  "parsers \<Rightarrow> (string \<Rightarrow> string option) \<Rightarrow> (nat \<Rightarrow> string) \<Rightarrow> string \<Rightarrow> string
     \<Rightarrow> exn + processedData" where
  "processFile ps moment_iso uuids filePath fileType =
     (case parse_by_type ps filePath fileType of
        Inl e \<Rightarrow> Inl e
      | Inr (c, d) \<Rightarrow>
          Inr \<lparr> content = c, extractedData = d,
                pd_propertyInfo = extractPropertyInfo c,
                pd_inspectorInfo = extractInspectorInfo moment_iso c,
                findings = extractFindings uuids c \<rparr>)"

text \<open>
  The tables the worker writes. The timestamp columns (\<^verbatim>\<open>createdAt\<close>, \<^verbatim>\<open>updatedAt\<close>,
  \<^verbatim>\<open>processedAt\<close>) are left out. A property row holds the nine columns of the property
  information, an inspection row the six inspector columns.
\<close>

record property_row =
  property_id :: string
  property_columns :: propertyInfo

record inspection_row =
  inspection_id :: string
  in_fileId :: string
  in_userId :: string
  in_propertyId :: "string option"
  inspector_columns :: inspectorInfo
  in_status :: string
  rawContent :: string
  in_extractedData :: string

record finding_row =
  fr_inspectionId :: string
  fr_description :: string
  fr_severity :: string
  fr_category :: string
  fr_recommendation :: "string option"
  fr_estimatedCost :: "int option"
  fr_priority :: string

record file_row =
  file_status :: string
  file_progress :: "int option"
  file_error :: "string option"

record store =
  properties :: "property_row list"
  inspections :: "inspection_row list"
  findings_tbl :: "finding_row list"
  files_tbl :: "string \<rightharpoonup> file_row"

text \<open>
  The database: the committed store, and the store as the open transaction sees it.
  A statement through \<^verbatim>\<open>trx\<close> changes the transaction's view, \<^verbatim>\<open>commit\<close> makes the view
  the committed store, \<^verbatim>\<open>rollback\<close> drops it; a statement through \<^verbatim>\<open>db\<close> changes the
  committed store. Each kind of statement may fail: \<open>fail op\<close> says that it throws.
\<close>

record database =
  committed :: store
  pending :: "store option"

datatype db_op =
  Begin | InsertProperty | InsertInspection | InsertFindings | UpdateFile | Commit | Rollback
  | UpdateStatus

definition begin_trx :: "(db_op \<Rightarrow> bool) \<Rightarrow> database \<Rightarrow> (exn + unit) \<times> database" where
  "begin_trx fail db =
     (if fail Begin then (Inl (Error ''begin''), db)
      else (Inr (), db \<lparr> pending := Some (committed db) \<rparr>))"

definition trx_write ::
  "(db_op \<Rightarrow> bool) \<Rightarrow> db_op \<Rightarrow> (store \<Rightarrow> store) \<Rightarrow> database \<Rightarrow> (exn + unit) \<times> database" where
  "trx_write fail opn f db =
     (if fail opn then (Inl (Error ''statement''), db)
      else (Inr (), db \<lparr> pending := map_option f (pending db) \<rparr>))"

definition commit_trx :: "(db_op \<Rightarrow> bool) \<Rightarrow> database \<Rightarrow> (exn + unit) \<times> database" where
  "commit_trx fail db =
     (if fail Commit then (Inl (Error ''commit''), db)
      else (case pending db of
              None \<Rightarrow> (Inl (Error ''no transaction''), db)
            | Some s \<Rightarrow> (Inr (), db \<lparr> committed := s, pending := None \<rparr>)))"

definition rollback_trx :: "(db_op \<Rightarrow> bool) \<Rightarrow> database \<Rightarrow> (exn + unit) \<times> database" where
  "rollback_trx fail db =
     (if fail Rollback then (Inl (Error ''rollback''), db)
      else (Inr (), db \<lparr> pending := None \<rparr>))"

text \<open>The four writes of \<^verbatim>\<open>saveProcessedData\<close>.\<close>

definition insert_property :: "string \<Rightarrow> propertyInfo \<Rightarrow> store \<Rightarrow> store" where
  "insert_property pid info s =
     s \<lparr> properties := properties s @ [\<lparr> property_id = pid, property_columns = info \<rparr>] \<rparr>"

definition insert_inspection ::
  "string \<Rightarrow> string \<Rightarrow> string \<Rightarrow> string option \<Rightarrow> processedData \<Rightarrow> store \<Rightarrow> store" where
  "insert_inspection iid fileId userId propertyId pd s =
     s \<lparr> inspections := inspections s @
           [\<lparr> inspection_id = iid, in_fileId = fileId, in_userId = userId,
               in_propertyId = propertyId, inspector_columns = pd_inspectorInfo pd,
               in_status = ''completed'', rawContent = content pd,
               in_extractedData = extractedData pd \<rparr>] \<rparr>"

definition finding_to_row :: "string \<Rightarrow> finding \<Rightarrow> finding_row" where
  "finding_to_row iid f =
     \<lparr> fr_inspectionId = iid, fr_description = description f, fr_severity = severity f,
       fr_category = category f, fr_recommendation = recommendation f,
       fr_estimatedCost = estimatedCost f, fr_priority = priority f \<rparr>"

definition insert_findings :: "string \<Rightarrow> finding list \<Rightarrow> store \<Rightarrow> store" where
  "insert_findings iid fs s = s \<lparr> findings_tbl := findings_tbl s @ map (finding_to_row iid) fs \<rparr>"

definition update_file_processed :: "string \<Rightarrow> store \<Rightarrow> store" where
  "update_file_processed fileId s =
     s \<lparr> files_tbl := (files_tbl s)(fileId :=
            map_option (\<lambda>row. row \<lparr> file_status := ''processed'' \<rparr>) (files_tbl s fileId)) \<rparr>"

record save_result =
  res_inspectionId :: string
  res_propertyId :: "string option"
  findingsCount :: nat

text \<open>\<^verbatim>\<open>if (propertyInfo.address)\<close>: neither \<^verbatim>\<open>null\<close> nor the empty string.\<close>

definition has_address :: "processedData \<Rightarrow> bool" where
  "has_address pd = (case address (pd_propertyInfo pd) of None \<Rightarrow> False | Some a \<Rightarrow> a \<noteq> [])"

text \<open>The body of the \<^verbatim>\<open>try\<close> of \<^verbatim>\<open>saveProcessedData\<close>; \<open>pid\<close> and \<open>iid\<close> are the ids
  the database returns for the new property and inspection rows.\<close>

definition save_try ::
  "(db_op \<Rightarrow> bool) \<Rightarrow> string \<Rightarrow> string \<Rightarrow> string \<Rightarrow> string \<Rightarrow> processedData \<Rightarrow> database
     \<Rightarrow> (exn + save_result) \<times> database" where
  "save_try fail pid iid fileId userId pd =
     bind (if has_address pd
           then bind (trx_write fail InsertProperty (insert_property pid (pd_propertyInfo pd)))
                     (\<lambda>_. return (Some pid))
           else return None) (\<lambda>propertyId.
     bind (trx_write fail InsertInspection (insert_inspection iid fileId userId propertyId pd)) (\<lambda>_.
     bind (if length (findings pd) > 0
           then trx_write fail InsertFindings (insert_findings iid (findings pd))
           else return ()) (\<lambda>_.
     bind (trx_write fail UpdateFile (update_file_processed fileId)) (\<lambda>_.
     bind (commit_trx fail) (\<lambda>_.
     return \<lparr> res_inspectionId = iid, res_propertyId = propertyId,
              findingsCount = length (findings pd) \<rparr>)))))"

text \<open>\<^verbatim>\<open>saveProcessedData\<close>: the transaction is opened before the \<^verbatim>\<open>try\<close>; the \<^verbatim>\<open>catch\<close>
  rolls back and throws the error again (or the error of the rollback).\<close>

definition saveProcessedData ::
  "(db_op \<Rightarrow> bool) \<Rightarrow> string \<Rightarrow> string \<Rightarrow> string \<Rightarrow> string \<Rightarrow> processedData \<Rightarrow> database
     \<Rightarrow> (exn + save_result) \<times> database" where
  "saveProcessedData fail pid iid fileId userId pd db =
     (case begin_trx fail db of
        (Inl e, db0) \<Rightarrow> (Inl e, db0)
      | (Inr u, db0) \<Rightarrow>
          (case save_try fail pid iid fileId userId pd db0 of
             (Inr res, db1) \<Rightarrow> (Inr res, db1)
           | (Inl e, db1) \<Rightarrow>
               (case rollback_trx fail db1 of
                  (Inl e', db2) \<Rightarrow> (Inl e', db2)
                | (Inr u', db2) \<Rightarrow> (Inl e, db2))))"

text \<open>The worker: its database, the events it sent to the socket (when one is set),
  and its console. \<^verbatim>\<open>updateFileStatus\<close> writes through \<^verbatim>\<open>db\<close> and swallows its own
  errors.\<close>

record worker =
  wdb :: database
  globalIO :: bool
  sent :: "(string \<times> string) list"
  worker_console :: "string list"

definition emitStatusUpdate :: "string \<Rightarrow> string \<Rightarrow> worker \<Rightarrow> worker" where
  "emitStatusUpdate event fileId w =
     (if globalIO w then w \<lparr> sent := sent w @ [(event, fileId)] \<rparr> else w)"

definition set_file_status ::
  "string \<Rightarrow> string \<Rightarrow> int option \<Rightarrow> string option \<Rightarrow> store \<Rightarrow> store" where
  "set_file_status fileId st progress err s =
     s \<lparr> files_tbl := (files_tbl s)(fileId :=
            map_option (\<lambda>row. row \<lparr> file_status := st,
                                    file_progress := (case progress of None \<Rightarrow> file_progress row
                                                      | Some p \<Rightarrow> Some p),
                                    file_error := (case err of None \<Rightarrow> file_error row
                                                   | Some e \<Rightarrow> Some e) \<rparr>)
              (files_tbl s fileId)) \<rparr>"

definition updateFileStatus ::
  "(db_op \<Rightarrow> bool) \<Rightarrow> string \<Rightarrow> string \<Rightarrow> int option \<Rightarrow> string option \<Rightarrow> worker \<Rightarrow> worker" where
  "updateFileStatus fail fileId st progress err w =
     (if fail UpdateStatus
      then w \<lparr> worker_console := worker_console w @ [''Failed to update file status''] \<rparr>
      else emitStatusUpdate ''file-status-updated'' fileId
             (w \<lparr> wdb := (wdb w) \<lparr> committed :=
                     set_file_status fileId st progress err (committed (wdb w)) \<rparr> \<rparr>))"

record job_data =
  job_fileId :: string
  job_userId :: string
  filePath :: string
  fileType :: string
  originalName :: string

record job_result =
  job_success :: bool
  jr_fileId :: string
  jr_inspectionId :: string
  jr_propertyId :: "string option"
  jr_findingsCount :: nat

definition job_failed :: "(db_op \<Rightarrow> bool) \<Rightarrow> string \<Rightarrow> exn \<Rightarrow> worker \<Rightarrow> (exn + job_result) \<times> worker" where
  "job_failed fail fileId e w =
     (Inl e, emitStatusUpdate ''file-processing-failed'' fileId
               (updateFileStatus fail fileId ''failed'' None (Some (message e)) w))"

definition processFileJob ::
  "(db_op \<Rightarrow> bool) \<Rightarrow> parsers \<Rightarrow> (string \<Rightarrow> string option) \<Rightarrow> (nat \<Rightarrow> string) \<Rightarrow> string \<Rightarrow> string
     \<Rightarrow> job_data \<Rightarrow> worker \<Rightarrow> (exn + job_result) \<times> worker" where
  "processFileJob fail ps moment_iso uuids pid iid job w =
     (let fileId = job_fileId job;
          w1 = updateFileStatus fail fileId ''processing'' (Some 10) None w;
          w2 = emitStatusUpdate ''file-processing-started'' fileId w1;
          w3 = updateFileStatus fail fileId ''processing'' (Some 30) None w2
      in case processFile ps moment_iso uuids (filePath job) (fileType job) of
           Inl e \<Rightarrow> job_failed fail fileId e w3
         | Inr pd \<Rightarrow>
             (let w4 = updateFileStatus fail fileId ''processing'' (Some 70) None w3
              in case saveProcessedData fail pid iid fileId (job_userId job) pd (wdb w4) of
                   (Inl e, db') \<Rightarrow> job_failed fail fileId e (w4 \<lparr> wdb := db' \<rparr>)
                 | (Inr res, db') \<Rightarrow>
                     (let w5 = updateFileStatus fail fileId ''processed'' (Some 100) None
                                 (w4 \<lparr> wdb := db' \<rparr>);
                          w6 = emitStatusUpdate ''file-processing-completed'' fileId w5
                      in (Inr \<lparr> job_success = True, jr_fileId = fileId,
                                jr_inspectionId = res_inspectionId res,
                                jr_propertyId = res_propertyId res,
                                jr_findingsCount = findingsCount res \<rparr>, w6))))"

section \<open>Claims\<close>

text \<open>
  C2, as stated, fails: \<^verbatim>\<open>maxRetries = 5\<close> bounds the retries, not the deliveries. An
  endpoint that always answers 500 is called six times (attempt numbers 0 to 5), not at
  most five times.
\<close>

theorem webhook_six_deliveries_counterexample:
  "\<not> length (run_results endpoint_500 clock_zero example_webhook) \<le> 5"
  by (simp add: run_results_def endpoint_500_def clock_zero_def example_webhook_def
        deliveries_eval)

text \<open>
  C2, amended: a delivery whose response status is outside [200, 300), or that fails
  with a transport error or timeout, is followed by a retry as long as its attempt
  number is below 5, so one (event, subscription) sees at most 6 deliveries: the first
  and up to 5 retries. The delivery with attempt number k (k from 1; header
  X-Webhook-Attempt k + 1) is scheduled with delay entry min (k - 1) 4 of
  1000, 5000, 15000, 60000, 300000 ms. The chain ends before the sixth delivery only
  on a success, every failed delivery increments the failure counter, and after the
  sixth nothing more is scheduled.
\<close>

theorem webhook_retry_schedule:
  "length (run_results endpoint clock w) \<le> 6 \<and>
   length (run_results endpoint clock w) = length (run_delays endpoint clock w) + 1 \<and>
   run_delays endpoint clock w =
     map (\<lambda>k. retryDelays ! min (k - 1) 4)
       [1 ..< length (run_results endpoint clock w)] \<and>
   retryDelays = [1000, 5000, 15000, 60000, 300000] \<and>
   map attemptHeader (run_results endpoint clock w) =
     [1 ..< length (run_results endpoint clock w) + 1] \<and>
   map success (run_results endpoint clock w) =
     map (\<lambda>k. is_2xx (endpoint k)) [0 ..< length (run_results endpoint clock w)] \<and>
   (length (run_results endpoint clock w) < 6 \<longrightarrow>
      success (last (run_results endpoint clock w))) \<and>
   failed (stats (run_webhook endpoint clock w)) =
     failed (stats w) + length (filter (\<lambda>r. \<not> success r) (run_results endpoint clock w))"
proof -
  obtain w' rs ds where run: "deliveries endpoint clock w 0 = (w', rs, ds)"
    by (cases "deliveries endpoint clock w 0") auto
  note g = deliveries_general [OF run]
  have r: "run_results endpoint clock w = rs" "run_delays endpoint clock w = ds"
    "run_webhook endpoint clock w = w'"
    using run by (simp_all add: run_results_def run_delays_def run_webhook_def)
  have len: "length rs = Suc (length ds)" using g by simp
  have len1: "length rs = length ds + 1" using g by blast
  have c1: "length rs \<le> 6" using g by (simp add: maxRetries_def)
  have "ds = map (\<lambda>k. retryDelays ! min k (length retryDelays - 1)) [0 ..< length ds]"
    using g by simp
  also have "\<dots> = map (\<lambda>k. retryDelays ! min (k - 1) (length retryDelays - 1)) [1 ..< Suc (length ds)]"
    by (rule map_pred_upt [symmetric])
  finally have c3': "ds = map (\<lambda>k. retryDelays ! min (k - 1) (length retryDelays - 1)) [1 ..< Suc (length ds)]" .
  have l: "length retryDelays - 1 = 4"
    by (simp add: retryDelays_def)
  have c3: "ds = map (\<lambda>k. retryDelays ! min (k - 1) 4) [1 ..< length rs]"
    using c3' unfolding l len .
  have c4: "map attemptHeader rs = [1 ..< length rs + 1]"
    using g by (simp add: map_Suc_upt del: upt_Suc)
  have c5: "map success rs = map (\<lambda>k. is_2xx (endpoint k)) [0 ..< length rs]"
    using g by simp
  have c6: "length rs < 6 \<longrightarrow> success (last rs)"
    using g by (simp add: maxRetries_def)
  have c7: "failed (stats w') = failed (stats w) + length (filter (\<lambda>r. \<not> success r) rs)"
    using g by simp
  show ?thesis
    unfolding r by (intro conjI) (rule c1 len1 c3 retryDelays_def c4 c5 c6 c7)+
qed

text \<open>Scenario S5 as the witness: 500, 500, then 200 gives three deliveries with headers
  1, 2, 3 and delays 1000 and 5000 ms.\<close>

theorem webhook_retry_schedule_witness:
  "length (run_results endpoint_s5 clock_zero example_webhook) = 3 \<and>
   run_delays endpoint_s5 clock_zero example_webhook = [1000, 5000] \<and>
   map attemptHeader (run_results endpoint_s5 clock_zero example_webhook) = [1, 2, 3] \<and>
   map success (run_results endpoint_s5 clock_zero example_webhook) = [False, False, True]"
proof -
  have n: "length (run_results endpoint_s5 clock_zero example_webhook) = 3"
    by (simp add: run_results_def endpoint_s5_def clock_zero_def example_webhook_def
          deliveries_eval)
  have u: "[Suc 0 ..< 3] = [1, 2]" "[Suc 0 ..< 4] = [1, 2, 3]" "[0 ..< 3] = [0, 1, 2]"
    by (simp_all add: upt_rec)
  note t = webhook_retry_schedule [of endpoint_s5 clock_zero example_webhook, unfolded n]
  have d: "run_delays endpoint_s5 clock_zero example_webhook = [1000, 5000]"
    using t by (simp add: u retryDelays_def)
  have a: "map attemptHeader (run_results endpoint_s5 clock_zero example_webhook) = [1, 2, 3]"
    using t by (simp add: u)
  have m: "map success (run_results endpoint_s5 clock_zero example_webhook) = [False, False, True]"
    using t by (simp add: u endpoint_s5_def is_2xx_def)
  show ?thesis
    using n d a m by simp
qed




text \<open>
  C7, evaluated where the code breaks it: the log is keyed by the millisecond of the
  admission, so requests recorded at the same clock reading share one entry. Every one
  of 101 requests of one free-tier client at the same millisecond is admitted, against
  a quota of 100.
\<close>

theorem same_millisecond_admissions:
  "length (filter is_Proceed
     (fst (serve (middleware (clock_at 1000)) (replicate 101 anon) fresh_world))) = 101"
  by (rule same_ms_serve) (simp_all add: fresh_world_def)









end
